theory Spec2Isabelle
  imports Main
begin

section \<open>Values of the Python program\<close>

text \<open>
  The program is \<^verbatim>\<open>backend/server.py\<close>: a handler class with \<^verbatim>\<open>_send_json\<close> and
  \<^verbatim>\<open>do_GET\<close>, and the functions \<^verbatim>\<open>parse_args\<close> and \<^verbatim>\<open>main\<close>.

  A Python \<^verbatim>\<open>str\<close> is represented by its UTF-8 bytes (an Isabelle \<open>string\<close>), so
  that \<^verbatim>\<open>s.encode('utf-8')\<close> is the identity on the representation and \<^verbatim>\<open>len\<close> of the
  encoded body is \<open>length\<close>.

  What \<^verbatim>\<open>json.load\<close> returns and \<^verbatim>\<open>json.dumps\<close> accepts: \<^verbatim>\<open>None\<close>, a bool, an int,
  a float, a str, a list, or a dict with str keys in insertion order. Floats are of a
  type \<open>'f\<close> that is left open.
\<close>

datatype 'f json =
    JNull
  | JBool bool
  | JInt int
  | JFloat 'f
  | JStr string
  | JArray "'f json list"
  | JObject "(string \<times> 'f json) list"

text \<open>Exceptions that the program's calls raise.\<close>

datatype pyexc =
    JSONDecodeError
  | UnicodeDecodeError
  | ValueError
  | FileNotFoundError
  | IsADirectoryError
  | OSError
  | SystemExit int

subsection \<open>Builtins: \<^verbatim>\<open>str\<close> of an int, \<^verbatim>\<open>sep.join\<close>\<close>

definition digit_char :: "nat \<Rightarrow> char" where
  "digit_char d = ''0123456789'' ! d"

function str_nat :: "nat \<Rightarrow> string" where
  "str_nat n = (if n < 10 then [digit_char n] else str_nat (n div 10) @ [digit_char (n mod 10)])"
  by pat_completeness auto
termination
  by (relation "measure id") auto

definition str_int :: "int \<Rightarrow> string" where
  "str_int i = (if i < 0 then CHR ''-'' # str_nat (nat (- i)) else str_nat (nat i))"

text \<open>The number a decimal numeral denotes, read digit by digit from the left.\<close>

definition digit_val :: "char \<Rightarrow> nat" where
  "digit_val c = of_char c - 48"

definition dec_value :: "string \<Rightarrow> nat" where
  "dec_value s = foldl (\<lambda>acc c. 10 * acc + digit_val c) 0 s"

fun join_str :: "string \<Rightarrow> string list \<Rightarrow> string" where
  "join_str sep [] = []"
| "join_str sep [x] = x"
| "join_str sep (x # y # ys) = x @ sep @ join_str sep (y # ys)"

subsection \<open>Paths (\<^verbatim>\<open>pathlib\<close>) and the file system\<close>

text \<open>
  A path is absolute or relative, with its components. \<^verbatim>\<open>a / b\<close> appends the components
  of a relative \<open>b\<close>; an absolute \<open>b\<close> replaces \<open>a\<close>.
\<close>

datatype pure_path = AbsPath "string list" | RelPath "string list"

fun joinpath :: "pure_path \<Rightarrow> pure_path \<Rightarrow> pure_path" where
  "joinpath p (AbsPath ys) = AbsPath ys"
| "joinpath (AbsPath xs) (RelPath ys) = AbsPath (xs @ ys)"
| "joinpath (RelPath xs) (RelPath ys) = RelPath (xs @ ys)"

fun str_path :: "pure_path \<Rightarrow> string" where
  "str_path (AbsPath xs) = CHR ''/'' # join_str ''/'' xs"
| "str_path (RelPath xs) = (if xs = [] then ''.'' else join_str ''/'' xs)"

text \<open>
  The state of the operating system that the program reads and changes: the working
  directory of the process, what each absolute path names, and whether a socket can be
  bound to an address. The file system has no permissions.
\<close>

datatype node = File string | Dir

record os_state =
  cwd :: "string list"
  files :: "string list \<Rightarrow> node option"
  bind_failure :: "string \<Rightarrow> int \<Rightarrow> pyexc option"

definition stat :: "os_state \<Rightarrow> pure_path \<Rightarrow> node option" where
  "stat os p = (case p of AbsPath xs \<Rightarrow> files os xs | RelPath xs \<Rightarrow> files os (cwd os @ xs))"

definition path_exists :: "os_state \<Rightarrow> pure_path \<Rightarrow> bool" where
  "path_exists os p = (stat os p \<noteq> None)"

definition path_is_dir :: "os_state \<Rightarrow> pure_path \<Rightarrow> bool" where
  "path_is_dir os p = (stat os p = Some Dir)"

text \<open>\<^verbatim>\<open>p.open('r', encoding='utf-8')\<close> and reading the stream: the bytes of the file.\<close>

definition open_read :: "os_state \<Rightarrow> pure_path \<Rightarrow> pyexc + string" where
  "open_read os p =
     (case stat os p of
        None \<Rightarrow> Inl FileNotFoundError
      | Some Dir \<Rightarrow> Inl IsADirectoryError
      | Some (File content) \<Rightarrow> Inr content)"

definition chdir :: "os_state \<Rightarrow> pure_path \<Rightarrow> os_state" where
  "chdir os p = (case p of AbsPath xs \<Rightarrow> os\<lparr>cwd := xs\<rparr> | RelPath xs \<Rightarrow> os\<lparr>cwd := cwd os @ xs\<rparr>)"

subsection \<open>Module constants\<close>

text \<open>
  \<^verbatim>\<open>ROOT_DIR = Path(__file__).resolve().parent.parent\<close>: \<^verbatim>\<open>resolve()\<close> returns an absolute
  path, so the constant is the absolute path of the directory above \<^verbatim>\<open>backend/\<close>,
  whose components are the parameter \<open>base\<close>.
\<close>

definition ROOT_DIR :: "string list \<Rightarrow> pure_path" where
  "ROOT_DIR base = AbsPath base"

definition SAMPLE_GRAPH_PATH :: "string list \<Rightarrow> pure_path" where
  "SAMPLE_GRAPH_PATH base =
     joinpath (joinpath (ROOT_DIR base) (RelPath [''data''])) (RelPath [''sample-graph.json''])"

definition HTTPStatus_OK :: nat where
  "HTTPStatus_OK = 200"

definition HTTPStatus_NOT_FOUND :: nat where
  "HTTPStatus_NOT_FOUND = 404"

section \<open>The request handler\<close>

text \<open>
  A handler object serves one request. \<open>path\<close> is the request target as received
  (\<^verbatim>\<open>self.path\<close>); the other fields record what the handler has sent: the status given
  to \<^verbatim>\<open>send_response\<close>, the headers given to \<^verbatim>\<open>send_header\<close> in order, whether
  \<^verbatim>\<open>end_headers\<close> was called, and the bytes written to \<^verbatim>\<open>wfile\<close>. The headers that
  the library adds of its own in \<^verbatim>\<open>send_response\<close> (\<^verbatim>\<open>Server\<close>, \<^verbatim>\<open>Date\<close>) are not
  recorded.
\<close>

record handler =
  path :: string
  resp_status :: "nat option"
  resp_headers :: "(string \<times> string) list"
  headers_ended :: bool
  wfile :: string

definition new_handler :: "string \<Rightarrow> handler" where
  "new_handler target =
     \<lparr>path = target, resp_status = None, resp_headers = [], headers_ended = False, wfile = []\<rparr>"

definition send_response :: "nat \<Rightarrow> handler \<Rightarrow> handler" where
  "send_response code h = h\<lparr>resp_status := Some code\<rparr>"

definition send_header :: "string \<Rightarrow> string \<Rightarrow> handler \<Rightarrow> handler" where
  "send_header keyword v h = h\<lparr>resp_headers := resp_headers h @ [(keyword, v)]\<rparr>"

definition end_headers :: "handler \<Rightarrow> handler" where
  "end_headers h = h\<lparr>headers_ended := True\<rparr>"

definition wfile_write :: "string \<Rightarrow> handler \<Rightarrow> handler" where
  "wfile_write b h = h\<lparr>wfile := wfile h @ b\<rparr>"

text \<open>The namespace that \<^verbatim>\<open>parse_args\<close> returns.\<close>

record args =
  host :: string
  port :: int
  root :: string

text \<open>
  The standard library, as parameters of the model:
  \<^item> \<open>urlparse_path s\<close> is \<^verbatim>\<open>urlparse(s).path\<close>, \<open>None\<close> when \<^verbatim>\<open>urlparse\<close> raises
    \<^verbatim>\<open>ValueError\<close>;
  \<^item> \<open>json_load bytes\<close> is \<^verbatim>\<open>json.load\<close> of a text stream over a file with these bytes,
    opened with \<^verbatim>\<open>encoding='utf-8'\<close>;
  \<^item> \<open>json_dumps v\<close> is \<^verbatim>\<open>json.dumps(v, indent=2)\<close>;
  \<^item> \<open>py_int s\<close> is \<^verbatim>\<open>int(s)\<close> of a str, \<open>None\<close> when it raises \<^verbatim>\<open>ValueError\<close>;
  \<^item> \<open>argparse defaults argv\<close> is \<^verbatim>\<open>parse_args(argv)\<close> of a parser with the options
    \<^verbatim>\<open>--host\<close>, \<^verbatim>\<open>--port\<close> (\<^verbatim>\<open>type=int\<close>) and \<^verbatim>\<open>--root\<close> and these defaults; \<open>Inl c\<close> when
    the parser exits with status \<open>c\<close>;
  \<^item> \<open>parse_path s\<close> is the path that \<^verbatim>\<open>pathlib\<close> reads from a str;
  \<^item> \<open>simple_do_GET\<close> is \<^verbatim>\<open>SimpleHTTPRequestHandler.do_GET\<close>, the static file serving.
\<close>

record 'f pylib =
  urlparse_path :: "string \<Rightarrow> string option"
  json_load :: "string \<Rightarrow> pyexc + 'f json"
  json_dumps :: "'f json \<Rightarrow> string"
  py_int :: "string \<Rightarrow> int option"
  argparse :: "args \<Rightarrow> string list \<Rightarrow> int + args"
  parse_path :: "string \<Rightarrow> pure_path"
  simple_do_GET :: "os_state \<Rightarrow> handler \<Rightarrow> pyexc option \<times> handler"

text \<open>\<^verbatim>\<open>BackendHandler._send_json(self, status, payload)\<close>\<close>

definition send_json :: "'f pylib \<Rightarrow> nat \<Rightarrow> 'f json \<Rightarrow> handler \<Rightarrow> handler" where
  "send_json lib status payload h =
     (let body = json_dumps lib payload;
          h1 = send_response status h;
          h2 = send_header ''Content-Type'' ''application/json; charset=utf-8'' h1;
          h3 = send_header ''Cache-Control'' ''no-cache'' h2;
          h4 = send_header ''Access-Control-Allow-Origin'' ''*'' h3;
          h5 = send_header ''Content-Length'' (str_nat (length body)) h4;
          h6 = end_headers h5
      in wfile_write body h6)"

text \<open>
  \<^verbatim>\<open>BackendHandler.do_GET(self)\<close>. The result is the exception that leaves the method,
  if any, and the handler after it.
\<close>

definition do_GET :: "'f pylib \<Rightarrow> string list \<Rightarrow> os_state \<Rightarrow> handler \<Rightarrow> pyexc option \<times> handler" where
  "do_GET lib base os h =
     (case urlparse_path lib (path h) of
        None \<Rightarrow> (Some ValueError, h)
      | Some parsed_path \<Rightarrow>
          if parsed_path = ''/api/health'' then
            (None, send_json lib HTTPStatus_OK
               (JObject [(''status'', JStr ''ok''),
                         (''service'', JStr ''sn-itil-bsm-discovery-backend''),
                         (''message'', JStr ''alive'')]) h)
          else if parsed_path = ''/api/sample-graph'' then
            (if \<not> path_exists os (SAMPLE_GRAPH_PATH base) then
               (None, send_json lib HTTPStatus_NOT_FOUND
                  (JObject [(''error'', JStr ''sample graph missing''),
                            (''path'', JStr (str_path (SAMPLE_GRAPH_PATH base)))]) h)
             else
               (case open_read os (SAMPLE_GRAPH_PATH base) of
                  Inl e \<Rightarrow> (Some e, h)
                | Inr content \<Rightarrow>
                    (case json_load lib content of
                       Inl e \<Rightarrow> (Some e, h)
                     | Inr payload \<Rightarrow> (None, send_json lib HTTPStatus_OK payload h))))
          else simple_do_GET lib os h)"

section \<open>Startup\<close>

text \<open>\<^verbatim>\<open>parse_args(argv)\<close>, with the environment \<^verbatim>\<open>os.environ\<close>.\<close>

definition parse_args :: "'f pylib \<Rightarrow> (string \<Rightarrow> string option) \<Rightarrow> string list \<Rightarrow> pyexc + args" where
  "parse_args lib environ argv =
     (case (case environ ''PORT'' of None \<Rightarrow> Some 3000 | Some s \<Rightarrow> py_int lib s) of
        None \<Rightarrow> Inl ValueError
      | Some port_default \<Rightarrow>
          (case argparse lib
                  \<lparr>host = ''127.0.0.1'', port = port_default,
                   root = (case environ ''BACKEND_ROOT'' of None \<Rightarrow> ''dist'' | Some r \<Rightarrow> r)\<rparr>
                  argv of
             Inl code \<Rightarrow> Inl (SystemExit code)
           | Inr a \<Rightarrow> Inr a))"

text \<open>
  What arrives while \<^verbatim>\<open>httpd.serve_forever()\<close> runs: a GET request with its target, or
  a change of a file made from outside the process. The loop gives each request a new
  handler; an exception of a handler is reported by the server and the loop goes on.
\<close>

datatype event = Get string | Edit "string list" "node option"

fun serve_forever ::
  "'f pylib \<Rightarrow> string list \<Rightarrow> os_state \<Rightarrow> event list \<Rightarrow> (pyexc option \<times> handler) list \<times> os_state" where
  "serve_forever lib base os [] = ([], os)"
| "serve_forever lib base os (Get target # es) =
     (case serve_forever lib base os es of
        (rs, os') \<Rightarrow> (do_GET lib base os (new_handler target) # rs, os'))"
| "serve_forever lib base os (Edit p n # es) =
     serve_forever lib base (os\<lparr>files := (files os)(p := n)\<rparr>) es"

text \<open>How \<^verbatim>\<open>serve_forever\<close> ends: by \<^verbatim>\<open>KeyboardInterrupt\<close>, or by another exception.\<close>

datatype ending = Interrupt | Failure pyexc

text \<open>What \<^verbatim>\<open>main\<close> itself does, in order.\<close>

datatype effect =
    Stderr string
  | Stdout string
  | Bind string int
  | Handled "pyexc option" handler
  | ServerClose

record run =
  result :: "pyexc + int"
  trace :: "effect list"
  final_os :: os_state

text \<open>\<^verbatim>\<open>main(argv)\<close>\<close>

definition main ::
  "'f pylib \<Rightarrow> string list \<Rightarrow> (string \<Rightarrow> string option) \<Rightarrow> os_state \<Rightarrow> event list \<Rightarrow> ending \<Rightarrow>
     string list \<Rightarrow> run" where
  "main lib base environ os events ending argv =
     (case parse_args lib environ argv of
        Inl e \<Rightarrow> \<lparr>result = Inl e, trace = [], final_os = os\<rparr>
      | Inr a \<Rightarrow>
          (let root_dir = joinpath (ROOT_DIR base) (parse_path lib (root a)) in
           if \<not> path_exists os root_dir \<or> \<not> path_is_dir os root_dir then
             \<lparr>result = Inr 1,
              trace = [Stderr (''Error: static root not found: '' @ str_path root_dir)],
              final_os = os\<rparr>
           else
             (let os1 = chdir os root_dir in
              case bind_failure os1 (host a) (port a) of
                Some e \<Rightarrow> \<lparr>result = Inl e, trace = [], final_os = os1\<rparr>
              | None \<Rightarrow>
                  (case serve_forever lib base os1 events of
                     (handled, os2) \<Rightarrow>
                       \<lparr>result = (case ending of Interrupt \<Rightarrow> Inr 0 | Failure e \<Rightarrow> Inl e),
                        trace =
                          [Bind (host a) (port a),
                           Stdout (''Backend serving on http://'' @ host a @ '':'' @ str_int (port a)),
                           Stdout (''Static root: '' @ str_path root_dir),
                           Stdout ''API endpoints:'',
                           Stdout ''  - GET /api/health'',
                           Stdout ''  - GET /api/sample-graph'']
                          @ map (\<lambda>(e, h). Handled e h) handled
                          @ [Stdout ''Shutting down'', ServerClose],
                        final_os = os2\<rparr>))))"

text \<open>
  \<^verbatim>\<open>raise SystemExit(main())\<close>: the exit status of the process is the value \<^verbatim>\<open>main\<close>
  returns, the code of a \<^verbatim>\<open>SystemExit\<close> that leaves it, and 1 for any other exception
  that leaves it.
\<close>

fun exit_status :: "pyexc + int \<Rightarrow> int" where
  "exit_status (Inr n) = n"
| "exit_status (Inl (SystemExit c)) = c"
| "exit_status (Inl e) = 1"

section \<open>A library and a machine to evaluate on\<close>

text \<open>
  The theorems below hold for every library. To evaluate the program on concrete
  requests, \<open>ref_lib\<close> gives the parameters values that follow CPython on the inputs used
  here: request targets in origin form, JSON texts with no escape but those of the quote
  and the backslash, decimal numerals with an optional sign, options given as
  \<^verbatim>\<open>--name value\<close>, and POSIX path strings. A float is carried by its \<^verbatim>\<open>repr\<close>. Of the
  number literals with a fraction or an exponent, \<open>ref_loads\<close> reads those that are
  beyond the range of a double for sure, a nonzero integer mantissa with an exponent of
  at least 309: \<^verbatim>\<open>float\<close> reads them as \<^verbatim>\<open>inf\<close> or \<^verbatim>\<open>-inf\<close>, and \<^verbatim>\<open>json.dumps\<close> writes these
  as \<^verbatim>\<open>Infinity\<close> and \<^verbatim>\<open>-Infinity\<close>. Other literals with a fraction or an exponent are
  outside what \<open>ref_loads\<close> reads.
\<close>

definition ref_urlparse_path :: "string \<Rightarrow> string option" where
  "ref_urlparse_path s = Some (takeWhile (\<lambda>c. c \<noteq> CHR ''?'' \<and> c \<noteq> CHR ''#'') s)"

definition quote :: "string \<Rightarrow> string" where
  "quote s =
     CHR 0x22
     # concat (map (\<lambda>c. if c = CHR 0x22 \<or> c = CHR 0x5C then [CHR 0x5C, c] else [c]) s)
     @ [CHR 0x22]"

definition newline_indent :: "nat \<Rightarrow> string" where
  "newline_indent lvl = CHR 0x0A # replicate (2 * lvl) CHR '' ''"

fun ref_dumps :: "nat \<Rightarrow> string json \<Rightarrow> string" where
  "ref_dumps lvl JNull = ''null''"
| "ref_dumps lvl (JBool b) = (if b then ''true'' else ''false'')"
| "ref_dumps lvl (JInt i) = str_int i"
| "ref_dumps lvl (JFloat r) =
     (if r = ''inf'' then ''Infinity''
      else if r = ''-inf'' then ''-Infinity''
      else if r = ''nan'' then ''NaN''
      else r)"
| "ref_dumps lvl (JStr s) = quote s"
| "ref_dumps lvl (JArray xs) =
     (if xs = [] then ''[]''
      else ''['' @ newline_indent (Suc lvl)
           @ join_str ('','' @ newline_indent (Suc lvl)) (map (ref_dumps (Suc lvl)) xs)
           @ newline_indent lvl @ '']'')"
| "ref_dumps lvl (JObject kvs) =
     (if kvs = [] then ''{}''
      else ''{'' @ newline_indent (Suc lvl)
           @ join_str ('','' @ newline_indent (Suc lvl))
               (map (\<lambda>(k, v). quote k @ '': '' @ ref_dumps (Suc lvl) v) kvs)
           @ newline_indent lvl @ ''}'')"

definition is_ws :: "char \<Rightarrow> bool" where
  "is_ws c = (c = CHR '' '' \<or> c = CHR 0x0A \<or> c = CHR 0x0D \<or> c = CHR 0x09)"

definition is_digit :: "char \<Rightarrow> bool" where
  "is_digit c = (c \<in> set ''0123456789'')"

definition skip_ws :: "string \<Rightarrow> string" where
  "skip_ws = dropWhile is_ws"

fun scan_string :: "string \<Rightarrow> (string \<times> string) option" where
  "scan_string [] = None"
| "scan_string (c # cs) =
     (if c = CHR 0x22 then Some ([], cs)
      else if c = CHR 0x5C then
        (case cs of
           [] \<Rightarrow> None
         | d # ds \<Rightarrow>
             if d = CHR 0x22 \<or> d = CHR 0x5C
             then map_option (\<lambda>(s, r). (d # s, r)) (scan_string ds) else None)
      else map_option (\<lambda>(s, r). (c # s, r)) (scan_string cs))"

definition scan_int :: "string \<Rightarrow> (int \<times> string) option" where
  "scan_int s =
     (let neg = (take 1 s = ''-'');
          t = (if neg then drop 1 s else s);
          ds = takeWhile is_digit t
      in if ds = [] \<or> (length ds > 1 \<and> hd ds = CHR ''0'') then None
         else Some ((if neg then - int (dec_value ds) else int (dec_value ds)),
                    dropWhile is_digit t))"

definition scan_number :: "string \<Rightarrow> (string json \<times> string) option" where
  "scan_number s =
     (case scan_int s of
        None \<Rightarrow> None
      | Some (m, r) \<Rightarrow>
          if take 1 r = ''e'' \<or> take 1 r = ''E'' then
            (let t = (if take 1 (drop 1 r) = ''+'' then drop 2 r else drop 1 r);
                 ds = takeWhile is_digit t
             in if ds \<noteq> [] \<and> m \<noteq> 0 \<and> 309 \<le> dec_value ds
                then Some (JFloat (if m < 0 then ''-inf'' else ''inf''), dropWhile is_digit t)
                else None)
          else if take 1 r = ''.'' then None
          else Some (JInt m, r))"

fun scan_value :: "nat \<Rightarrow> string \<Rightarrow> (string json \<times> string) option"
  and scan_items :: "nat \<Rightarrow> string \<Rightarrow> (string json list \<times> string) option"
  and scan_pairs :: "nat \<Rightarrow> string \<Rightarrow> ((string \<times> string json) list \<times> string) option" where
  "scan_value 0 s = None"
| "scan_value (Suc n) s =
     (case skip_ws s of
        [] \<Rightarrow> None
      | c # cs \<Rightarrow>
          if c = CHR 0x22 then map_option (\<lambda>(x, r). (JStr x, r)) (scan_string cs)
          else if c = CHR ''['' then
            (if take 1 (skip_ws cs) = '']'' then Some (JArray [], drop 1 (skip_ws cs))
             else map_option (\<lambda>(xs, r). (JArray xs, r)) (scan_items n cs))
          else if c = CHR ''{'' then
            (if take 1 (skip_ws cs) = ''}'' then Some (JObject [], drop 1 (skip_ws cs))
             else map_option (\<lambda>(kvs, r). (JObject kvs, r)) (scan_pairs n cs))
          else if take 4 (c # cs) = ''null'' then Some (JNull, drop 3 cs)
          else if take 4 (c # cs) = ''true'' then Some (JBool True, drop 3 cs)
          else if take 5 (c # cs) = ''false'' then Some (JBool False, drop 4 cs)
          else scan_number (c # cs))"
| "scan_items 0 s = None"
| "scan_items (Suc n) s =
     (case scan_value n s of
        None \<Rightarrow> None
      | Some (v, r) \<Rightarrow>
          if take 1 (skip_ws r) = '','' then
            map_option (\<lambda>(vs, r'). (v # vs, r')) (scan_items n (drop 1 (skip_ws r)))
          else if take 1 (skip_ws r) = '']'' then Some ([v], drop 1 (skip_ws r))
          else None)"
| "scan_pairs 0 s = None"
| "scan_pairs (Suc n) s =
     (if take 1 (skip_ws s) \<noteq> [CHR 0x22] then None
      else
        (case scan_string (drop 1 (skip_ws s)) of
           None \<Rightarrow> None
         | Some (k, r) \<Rightarrow>
             if take 1 (skip_ws r) \<noteq> '':'' then None
             else
               (case scan_value n (drop 1 (skip_ws r)) of
                  None \<Rightarrow> None
                | Some (v, r1) \<Rightarrow>
                    if take 1 (skip_ws r1) = '','' then
                      map_option (\<lambda>(kvs, r2). ((k, v) # kvs, r2))
                        (scan_pairs n (drop 1 (skip_ws r1)))
                    else if take 1 (skip_ws r1) = ''}'' then Some ([(k, v)], drop 1 (skip_ws r1))
                    else None)))"

definition ref_loads :: "string \<Rightarrow> pyexc + string json" where
  "ref_loads s =
     (case scan_value (Suc (length s)) s of
        None \<Rightarrow> Inl JSONDecodeError
      | Some (v, r) \<Rightarrow> if skip_ws r = [] then Inr v else Inl JSONDecodeError)"

definition ref_int :: "string \<Rightarrow> int option" where
  "ref_int s =
     (let neg = (take 1 s = ''-'');
          t = (if neg \<or> take 1 s = ''+'' then drop 1 s else s)
      in if t = [] \<or> \<not> list_all is_digit t then None
         else Some (if neg then - int (dec_value t) else int (dec_value t)))"

fun ref_argparse :: "args \<Rightarrow> string list \<Rightarrow> int + args" where
  "ref_argparse a [] = Inr a"
| "ref_argparse a [k] = Inl 2"
| "ref_argparse a (k # v # rest) =
     (if k = ''--host'' then ref_argparse (a\<lparr>host := v\<rparr>) rest
      else if k = ''--port'' then
        (case ref_int v of None \<Rightarrow> Inl 2 | Some p \<Rightarrow> ref_argparse (a\<lparr>port := p\<rparr>) rest)
      else if k = ''--root'' then ref_argparse (a\<lparr>root := v\<rparr>) rest
      else Inl 2)"

fun split_on :: "char \<Rightarrow> string \<Rightarrow> string list" where
  "split_on d [] = [[]]"
| "split_on d (c # cs) =
     (if c = d then [] # split_on d cs
      else (case split_on d cs of [] \<Rightarrow> [[c]] | x # xs \<Rightarrow> (c # x) # xs))"

definition ref_parse_path :: "string \<Rightarrow> pure_path" where
  "ref_parse_path s =
     (let comps = filter (\<lambda>c. c \<noteq> [] \<and> c \<noteq> ''.'') (split_on CHR ''/'' s)
      in if take 1 s = ''/'' then AbsPath comps else RelPath comps)"

text \<open>
  Static serving, reduced to its two outcomes: the bytes of the file that the target
  names under the working directory, or 404.
\<close>

definition ref_static :: "os_state \<Rightarrow> handler \<Rightarrow> pyexc option \<times> handler" where
  "ref_static os h =
     (case stat os (RelPath (filter (\<lambda>c. c \<noteq> []) (split_on CHR ''/'' (the (ref_urlparse_path (path h)))))) of
        Some (File content) \<Rightarrow>
          (None, wfile_write content (end_headers
             (send_header ''Content-Length'' (str_nat (length content)) (send_response 200 h))))
      | _ \<Rightarrow> (None, end_headers (send_response 404 h)))"

definition ref_lib :: "string pylib" where
  "ref_lib =
     \<lparr>urlparse_path = ref_urlparse_path, json_load = ref_loads, json_dumps = ref_dumps 0,
      py_int = ref_int, argparse = ref_argparse, parse_path = ref_parse_path,
      simple_do_GET = ref_static\<rparr>"

text \<open>
  A machine: the project lies in \<^verbatim>\<open>/srv/app\<close>, with the directories \<^verbatim>\<open>dist\<close> and
  \<^verbatim>\<open>public\<close> and the file \<^verbatim>\<open>dist/index.html\<close>; \<open>sample\<close> is what \<^verbatim>\<open>/srv/app/data/sample-graph.json\<close>
  names. Port 80 cannot be bound.
\<close>

definition demo_base :: "string list" where
  "demo_base = [''srv'', ''app'']"

definition demo_os :: "node option \<Rightarrow> os_state" where
  "demo_os sample =
     \<lparr>cwd = [''home''],
      files = (\<lambda>p. if p = [''srv'', ''app'', ''dist''] then Some Dir
                    else if p = [''srv'', ''app'', ''public''] then Some Dir
                    else if p = [''srv'', ''app'', ''dist'', ''index.html''] then Some (File ''<html></html>'')
                    else if p = [''srv'', ''app'', ''data'', ''sample-graph.json''] then sample
                    else None),
      bind_failure = (\<lambda>h p. if p = 80 then Some OSError else None)\<rparr>"

definition graph_text :: string where
  "graph_text = ''{\"nodes\": [], \"edges\": []}''"

section \<open>JSON texts\<close>

text \<open>
  What a claim calls valid JSON: the grammar of RFC 8259. \<open>rfc_string\<close> reads a string
  after its opening quote, \<open>rfc_number\<close> a number, \<open>rfc_value\<close> a value; each returns
  the rest of the input. The recursion on values is bounded by the length of the text.
\<close>

definition is_hex :: "char \<Rightarrow> bool" where
  "is_hex c = (c \<in> set ''0123456789abcdefABCDEF'')"

function rfc_string :: "string \<Rightarrow> string option" where
  "rfc_string [] = None"
| "rfc_string (c # cs) =
     (if c = CHR 0x22 then Some cs
      else if c = CHR 0x5C then
        (case cs of
           [] \<Rightarrow> None
         | d # ds \<Rightarrow>
             if d = CHR 0x22 \<or> d = CHR 0x5C \<or> d \<in> set ''/bfnrt'' then rfc_string ds
             else if d = CHR ''u'' \<and> length (take 4 ds) = 4 \<and> list_all is_hex (take 4 ds)
             then rfc_string (drop 4 ds)
             else None)
      else if (of_char c :: nat) < 32 then None
      else rfc_string cs)"
  by pat_completeness auto
termination
  by (relation "measure length") auto

definition rfc_number :: "string \<Rightarrow> string option" where
  "rfc_number s =
     (let s1 = (if take 1 s = ''-'' then drop 1 s else s);
          ip = takeWhile is_digit s1;
          r1 = dropWhile is_digit s1
      in if ip = [] \<or> (length ip > 1 \<and> hd ip = CHR ''0'') then None
         else
           (case (if take 1 r1 = ''.'' then
                    (if takeWhile is_digit (drop 1 r1) = [] then None
                     else Some (dropWhile is_digit (drop 1 r1)))
                  else Some r1) of
              None \<Rightarrow> None
            | Some r2 \<Rightarrow>
                if take 1 r2 = ''e'' \<or> take 1 r2 = ''E'' then
                  (let r3 = (if take 1 (drop 1 r2) = ''+'' \<or> take 1 (drop 1 r2) = ''-''
                             then drop 2 r2 else drop 1 r2)
                   in if takeWhile is_digit r3 = [] then None
                      else Some (dropWhile is_digit r3))
                else Some r2))"

fun rfc_value :: "nat \<Rightarrow> string \<Rightarrow> string option"
  and rfc_items :: "nat \<Rightarrow> string \<Rightarrow> string option"
  and rfc_members :: "nat \<Rightarrow> string \<Rightarrow> string option" where
  "rfc_value 0 s = None"
| "rfc_value (Suc n) s =
     (case skip_ws s of
        [] \<Rightarrow> None
      | c # cs \<Rightarrow>
          if c = CHR 0x22 then rfc_string cs
          else if c = CHR ''['' then
            (if take 1 (skip_ws cs) = '']'' then Some (drop 1 (skip_ws cs)) else rfc_items n cs)
          else if c = CHR ''{'' then
            (if take 1 (skip_ws cs) = ''}'' then Some (drop 1 (skip_ws cs)) else rfc_members n cs)
          else if take 4 (c # cs) = ''null'' then Some (drop 3 cs)
          else if take 4 (c # cs) = ''true'' then Some (drop 3 cs)
          else if take 5 (c # cs) = ''false'' then Some (drop 4 cs)
          else rfc_number (c # cs))"
| "rfc_items 0 s = None"
| "rfc_items (Suc n) s =
     (case rfc_value n s of
        None \<Rightarrow> None
      | Some r \<Rightarrow>
          if take 1 (skip_ws r) = '','' then rfc_items n (drop 1 (skip_ws r))
          else if take 1 (skip_ws r) = '']'' then Some (drop 1 (skip_ws r))
          else None)"
| "rfc_members 0 s = None"
| "rfc_members (Suc n) s =
     (if take 1 (skip_ws s) \<noteq> [CHR 0x22] then None
      else
        (case rfc_string (drop 1 (skip_ws s)) of
           None \<Rightarrow> None
         | Some r \<Rightarrow>
             if take 1 (skip_ws r) \<noteq> '':'' then None
             else
               (case rfc_value n (drop 1 (skip_ws r)) of
                  None \<Rightarrow> None
                | Some r1 \<Rightarrow>
                    if take 1 (skip_ws r1) = '','' then rfc_members n (drop 1 (skip_ws r1))
                    else if take 1 (skip_ws r1) = ''}'' then Some (drop 1 (skip_ws r1))
                    else None)))"


section \<open>Lemmas about the builtins, the handler and the serve loop\<close>

declare str_nat.simps [simp del]

lemma digit_val_digit_char: "d < 10 \<Longrightarrow> digit_val (digit_char d) = d"
proof -
  assume "d < 10"
  then have "d = 0 \<or> d = 1 \<or> d = 2 \<or> d = 3 \<or> d = 4 \<or> d = 5 \<or> d = 6 \<or> d = 7 \<or> d = 8 \<or> d = 9"
    by arith
  then show ?thesis
    by (elim disjE) (simp_all add: digit_val_def digit_char_def)
qed

lemma dec_value_snoc: "dec_value (s @ [c]) = 10 * dec_value s + digit_val c"
  by (simp add: dec_value_def)

lemma dec_value_str_nat: "dec_value (str_nat n) = n"
proof (induction n rule: str_nat.induct)
  case (1 n)
  show ?case
  proof (cases "n < 10")
    case True
    then show ?thesis
      by (simp add: str_nat.simps [of n] dec_value_def digit_val_digit_char)
  next
    case False
    with 1 have "dec_value (str_nat (n div 10)) = n div 10"
      by simp
    with False show ?thesis
      by (simp add: str_nat.simps [of n] dec_value_snoc digit_val_digit_char)
  qed
qed

lemma SAMPLE_GRAPH_PATH_abs: "SAMPLE_GRAPH_PATH base = AbsPath (base @ [''data'', ''sample-graph.json''])"
  by (simp add: SAMPLE_GRAPH_PATH_def ROOT_DIR_def)

lemma stat_abs: "stat os (AbsPath xs) = files os xs"
  by (simp add: stat_def)

lemma chdir_files: "files (chdir os d) = files os" "bind_failure (chdir os d) = bind_failure os"
  by (cases d; simp add: chdir_def)+

lemma new_handler_fields:
  "path (new_handler t) = t" "resp_status (new_handler t) = None" "resp_headers (new_handler t) = []"
  "headers_ended (new_handler t) = False" "wfile (new_handler t) = []"
  by (simp_all add: new_handler_def)

lemma send_json_fields:
  "path (send_json lib st v h) = path h"
  "resp_status (send_json lib st v h) = Some st"
  "resp_headers (send_json lib st v h) =
     resp_headers h @
     [(''Content-Type'', ''application/json; charset=utf-8''),
      (''Cache-Control'', ''no-cache''),
      (''Access-Control-Allow-Origin'', ''*''),
      (''Content-Length'', str_nat (length (json_dumps lib v)))]"
  "headers_ended (send_json lib st v h) = True"
  "wfile (send_json lib st v h) = wfile h @ json_dumps lib v"
  by (simp_all add: send_json_def Let_def send_response_def send_header_def end_headers_def
      wfile_write_def)

lemma send_json_path_update:
  "send_json lib st v (h\<lparr>path := t\<rparr>) = (send_json lib st v h)\<lparr>path := t\<rparr>"
  by (simp add: send_json_def Let_def send_response_def send_header_def end_headers_def
      wfile_write_def)

lemma serve_forever_append:
  "serve_forever lib base os (es1 @ es2) =
     (fst (serve_forever lib base os es1)
        @ fst (serve_forever lib base (snd (serve_forever lib base os es1)) es2),
      snd (serve_forever lib base (snd (serve_forever lib base os es1)) es2))"
proof (induction es1 arbitrary: os)
  case Nil
  show ?case by simp
next
  case (Cons e es1)
  show ?case
    by (cases e) (simp_all add: Cons.IH split: prod.splits)
qed

lemma serve_forever_gets:
  "serve_forever lib base os (map Get ts) = (map (\<lambda>t. do_GET lib base os (new_handler t)) ts, os)"
  by (induction ts) simp_all

lemma serve_forever_snoc_get:
  "fst (serve_forever lib base os (before @ [Get target])) =
     fst (serve_forever lib base os before)
       @ [do_GET lib base (snd (serve_forever lib base os before)) (new_handler target)]"
  by (simp add: serve_forever_append split: prod.splits)

lemma serve_forever_snd_cons_get:
  "snd (serve_forever lib base os (Get t # es)) = snd (serve_forever lib base os es)"
  by (simp split: prod.splits)

lemma serve_forever_keeps_file:
  "\<forall>n. Edit q n \<notin> set es \<Longrightarrow> files (snd (serve_forever lib base os es)) q = files os q"
proof (induction es arbitrary: os)
  case Nil
  show ?case by simp
next
  case (Cons e es)
  then have rest: "\<forall>n. Edit q n \<notin> set es"
    by simp
  show ?case
  proof (cases e)
    case (Get t)
    have "snd (serve_forever lib base os (e # es)) = snd (serve_forever lib base os es)"
      unfolding Get by (rule serve_forever_snd_cons_get)
    with Cons.IH [OF rest] show ?thesis
      by simp
  next
    case (Edit p n)
    with Cons.prems have "p \<noteq> q"
      by auto
    with Edit Cons.IH [OF rest, of "os\<lparr>files := (files os)(p := n)\<rparr>"] show ?thesis
      by simp
  qed
qed

lemma serve_forever_gets_files:
  "files (snd (serve_forever lib base os (map Get ts))) = files os"
  by (simp add: serve_forever_gets)

lemma do_GET_health:
  "urlparse_path lib (path h) = Some ''/api/health'' \<Longrightarrow>
   do_GET lib base os h =
     (None, send_json lib HTTPStatus_OK
        (JObject [(''status'', JStr ''ok''),
                  (''service'', JStr ''sn-itil-bsm-discovery-backend''),
                  (''message'', JStr ''alive'')]) h)"
  by (simp add: do_GET_def)

lemma do_GET_missing:
  "urlparse_path lib (path h) = Some ''/api/sample-graph'' \<Longrightarrow>
   \<not> path_exists os (SAMPLE_GRAPH_PATH base) \<Longrightarrow>
   do_GET lib base os h =
     (None, send_json lib HTTPStatus_NOT_FOUND
        (JObject [(''error'', JStr ''sample graph missing''),
                  (''path'', JStr (str_path (SAMPLE_GRAPH_PATH base)))]) h)"
  by (simp add: do_GET_def)

lemma do_GET_file:
  "urlparse_path lib (path h) = Some ''/api/sample-graph'' \<Longrightarrow>
   stat os (SAMPLE_GRAPH_PATH base) = Some (File content) \<Longrightarrow>
   do_GET lib base os h =
     (case json_load lib content of
        Inl e \<Rightarrow> (Some e, h)
      | Inr payload \<Rightarrow> (None, send_json lib HTTPStatus_OK payload h))"
  by (simp add: do_GET_def path_exists_def open_read_def)

lemma do_GET_api_cases:
  assumes "urlparse_path lib (path h) = Some p"
    and "p = ''/api/health'' \<or> p = ''/api/sample-graph''"
  shows "(\<exists>e. do_GET lib base os h = (Some e, h))
       \<or> (\<exists>st v. do_GET lib base os h = (None, send_json lib st v h))"
  using assms by (auto simp: do_GET_def split: sum.splits)

lemma do_GET_static:
  "urlparse_path lib (path h) = Some p \<Longrightarrow> p \<noteq> ''/api/health'' \<Longrightarrow> p \<noteq> ''/api/sample-graph'' \<Longrightarrow>
   do_GET lib base os h = simple_do_GET lib os h"
  by (simp add: do_GET_def)

lemma do_GET_api_target:
  assumes "urlparse_path lib (path h) = Some p"
    and "p = ''/api/health'' \<or> p = ''/api/sample-graph''"
    and "urlparse_path lib t = Some p"
  shows "do_GET lib base os (h\<lparr>path := t\<rparr>) =
           (fst (do_GET lib base os h), (snd (do_GET lib base os h))\<lparr>path := t\<rparr>)"
  using assms by (auto simp: do_GET_def send_json_path_update split: sum.splits)

lemma do_GET_sample_cong:
  "urlparse_path lib (path h) = Some ''/api/sample-graph'' \<Longrightarrow>
   stat os1 (SAMPLE_GRAPH_PATH base) = stat os2 (SAMPLE_GRAPH_PATH base) \<Longrightarrow>
   do_GET lib base os1 h = do_GET lib base os2 h"
  by (simp add: do_GET_def path_exists_def open_read_def)

lemma do_GET_sample_chdir:
  "urlparse_path lib (path h) = Some ''/api/sample-graph'' \<Longrightarrow>
   do_GET lib base (chdir os d) h = do_GET lib base os h"
  by (rule do_GET_sample_cong) (simp_all add: SAMPLE_GRAPH_PATH_abs stat_abs chdir_files)

lemma main_parse_failure:
  "parse_args lib environ argv = Inl e \<Longrightarrow>
   main lib base environ os events ending argv = \<lparr>result = Inl e, trace = [], final_os = os\<rparr>"
  by (simp add: main_def)

lemma main_bad_root:
  "parse_args lib environ argv = Inr a \<Longrightarrow>
   \<not> (path_exists os (joinpath (ROOT_DIR base) (parse_path lib (root a)))
      \<and> path_is_dir os (joinpath (ROOT_DIR base) (parse_path lib (root a)))) \<Longrightarrow>
   main lib base environ os events ending argv =
     \<lparr>result = Inr 1,
      trace = [Stderr (''Error: static root not found: ''
                 @ str_path (joinpath (ROOT_DIR base) (parse_path lib (root a))))],
      final_os = os\<rparr>"
  by (auto simp: main_def Let_def)

lemma main_bind_failure:
  "parse_args lib environ argv = Inr a \<Longrightarrow>
   path_exists os (joinpath (ROOT_DIR base) (parse_path lib (root a))) \<Longrightarrow>
   path_is_dir os (joinpath (ROOT_DIR base) (parse_path lib (root a))) \<Longrightarrow>
   bind_failure (chdir os (joinpath (ROOT_DIR base) (parse_path lib (root a)))) (host a) (port a) = Some e \<Longrightarrow>
   main lib base environ os events ending argv =
     \<lparr>result = Inl e, trace = [],
      final_os = chdir os (joinpath (ROOT_DIR base) (parse_path lib (root a)))\<rparr>"
  by (simp add: main_def Let_def)

lemma main_served:
  "parse_args lib environ argv = Inr a \<Longrightarrow>
   path_exists os (joinpath (ROOT_DIR base) (parse_path lib (root a))) \<Longrightarrow>
   path_is_dir os (joinpath (ROOT_DIR base) (parse_path lib (root a))) \<Longrightarrow>
   bind_failure (chdir os (joinpath (ROOT_DIR base) (parse_path lib (root a)))) (host a) (port a) = None \<Longrightarrow>
   main lib base environ os events ending argv =
     \<lparr>result = (case ending of Interrupt \<Rightarrow> Inr 0 | Failure e \<Rightarrow> Inl e),
      trace =
        [Bind (host a) (port a),
         Stdout (''Backend serving on http://'' @ host a @ '':'' @ str_int (port a)),
         Stdout (''Static root: '' @ str_path (joinpath (ROOT_DIR base) (parse_path lib (root a)))),
         Stdout ''API endpoints:'',
         Stdout ''  - GET /api/health'',
         Stdout ''  - GET /api/sample-graph'']
        @ map (\<lambda>(e, h). Handled e h)
            (fst (serve_forever lib base
                    (chdir os (joinpath (ROOT_DIR base) (parse_path lib (root a)))) events))
        @ [Stdout ''Shutting down'', ServerClose],
      final_os = snd (serve_forever lib base
                    (chdir os (joinpath (ROOT_DIR base) (parse_path lib (root a)))) events)\<rparr>"
  by (simp add: main_def Let_def split: prod.splits)

lemma main_result_cases:
  "result (main lib base environ os events ending argv) =
     (case parse_args lib environ argv of
        Inl e \<Rightarrow> Inl e
      | Inr a \<Rightarrow>
          if \<not> (path_exists os (joinpath (ROOT_DIR base) (parse_path lib (root a)))
                \<and> path_is_dir os (joinpath (ROOT_DIR base) (parse_path lib (root a)))) then Inr 1
          else (case bind_failure (chdir os (joinpath (ROOT_DIR base) (parse_path lib (root a))))
                       (host a) (port a) of
                  Some e \<Rightarrow> Inl e
                | None \<Rightarrow> (case ending of Interrupt \<Rightarrow> Inr 0 | Failure e \<Rightarrow> Inl e)))"
  by (auto simp: main_def Let_def split: sum.splits option.splits prod.splits)

section \<open>The health endpoint\<close>

text \<open>
  Claim C4. A GET request whose parsed path is \<^verbatim>\<open>/api/health\<close> gets the same response
  in every state of the file system and after any earlier requests and file changes:
  no exception, status 200, and a body that is the serialization of the dict with
  \<^verbatim>\<open>status\<close> = \<^verbatim>\<open>"ok"\<close>, \<^verbatim>\<open>service\<close> = \<^verbatim>\<open>"sn-itil-bsm-discovery-backend"\<close> and
  \<^verbatim>\<open>message\<close> = \<^verbatim>\<open>"alive"\<close>.
\<close>

theorem health_always_ok:
  assumes "urlparse_path lib target = Some ''/api/health''"
  shows "\<exists>r. (\<forall>os. do_GET lib base os (new_handler target) = (None, r))
           \<and> (\<forall>os before. last (fst (serve_forever lib base os (before @ [Get target]))) = (None, r))
           \<and> resp_status r = Some 200
           \<and> wfile r = json_dumps lib (JObject [(''status'', JStr ''ok''),
                  (''service'', JStr ''sn-itil-bsm-discovery-backend''),
                  (''message'', JStr ''alive'')])"
proof -
  let ?r = "send_json lib HTTPStatus_OK
        (JObject [(''status'', JStr ''ok''),
                  (''service'', JStr ''sn-itil-bsm-discovery-backend''),
                  (''message'', JStr ''alive'')]) (new_handler target)"
  from assms have p: "urlparse_path lib (path (new_handler target)) = Some ''/api/health''"
    by (simp add: new_handler_def)
  have a: "do_GET lib base os (new_handler target) = (None, ?r)" for os
    using p by (rule do_GET_health)
  have b: "last (fst (serve_forever lib base os (before @ [Get target]))) = (None, ?r)" for os before
    by (simp add: serve_forever_snoc_get a)
  have c: "resp_status ?r = Some 200"
    by (simp add: send_json_fields HTTPStatus_OK_def)
  have d: "wfile ?r = json_dumps lib (JObject [(''status'', JStr ''ok''),
                  (''service'', JStr ''sn-itil-bsm-discovery-backend''),
                  (''message'', JStr ''alive'')])"
    by (simp add: send_json_fields new_handler_def)
  from a b c d show ?thesis by blast
qed

theorem health_always_ok_witness:
  "urlparse_path ref_lib ''/api/health?probe=1'' = Some ''/api/health''
   \<and> (\<exists>r. last (fst (serve_forever ref_lib demo_base (demo_os None)
                 ([Get ''/api/sample-graph'', Get ''/nothing.html''] @ [Get ''/api/health?probe=1'']))) = (None, r)
          \<and> resp_status r = Some 200
          \<and> wfile r = ''{\<newline>  \"status\": \"ok\",\<newline>  \"service\": \"sn-itil-bsm-discovery-backend\",\<newline>  \"message\": \"alive\"\<newline>}'')"
proof -
  have h: "urlparse_path ref_lib ''/api/health?probe=1'' = Some ''/api/health''"
    by (simp add: ref_lib_def ref_urlparse_path_def)
  have d: "json_dumps ref_lib (JObject [(''status'', JStr ''ok''),
                  (''service'', JStr ''sn-itil-bsm-discovery-backend''),
                  (''message'', JStr ''alive'')]) =
   ''{\<newline>  \"status\": \"ok\",\<newline>  \"service\": \"sn-itil-bsm-discovery-backend\",\<newline>  \"message\": \"alive\"\<newline>}''"
    by (simp add: ref_lib_def quote_def newline_indent_def numeral_2_eq_2)
  from health_always_ok [OF h, of demo_base] obtain r where
    "\<forall>os before. last (fst (serve_forever ref_lib demo_base os (before @ [Get ''/api/health?probe=1'']))) = (None, r)"
    "resp_status r = Some 200"
    "wfile r = json_dumps ref_lib (JObject [(''status'', JStr ''ok''),
                  (''service'', JStr ''sn-itil-bsm-discovery-backend''),
                  (''message'', JStr ''alive'')])"
    by blast
  with h d show ?thesis by metis
qed

section \<open>The headers of a JSON response\<close>

text \<open>
  Claim C5. Every response that \<^verbatim>\<open>do_GET\<close> sends on one of the two API paths (the
  health document, the sample graph, the 404 error object) is sent with the headers
  \<^verbatim>\<open>Content-Type: application/json; charset=utf-8\<close>, \<^verbatim>\<open>Cache-Control: no-cache\<close>,
  \<^verbatim>\<open>Access-Control-Allow-Origin: *\<close> and \<^verbatim>\<open>Content-Length\<close>, and the value of the last
  is the decimal numeral of the number of bytes of the body that was written.
\<close>

theorem json_response_headers:
  assumes "urlparse_path lib target = Some p"
    and "p = ''/api/health'' \<or> p = ''/api/sample-graph''"
    and "do_GET lib base os (new_handler target) = (None, r)"
  shows "resp_headers r =
           [(''Content-Type'', ''application/json; charset=utf-8''),
            (''Cache-Control'', ''no-cache''),
            (''Access-Control-Allow-Origin'', ''*''),
            (''Content-Length'', str_nat (length (wfile r)))]
       \<and> dec_value (str_nat (length (wfile r))) = length (wfile r)
       \<and> headers_ended r"
proof -
  from assms(1) have "urlparse_path lib (path (new_handler target)) = Some p"
    by (simp add: new_handler_fields)
  from do_GET_api_cases [OF this assms(2), of base os] assms(3)
  obtain st v where "r = send_json lib st v (new_handler target)"
    by auto
  then show ?thesis
    by (simp add: send_json_fields new_handler_fields dec_value_str_nat)
qed

theorem json_response_headers_witness:
  "urlparse_path ref_lib ''/api/sample-graph'' = Some ''/api/sample-graph''
   \<and> fst (do_GET ref_lib demo_base (demo_os None) (new_handler ''/api/sample-graph'')) = None
   \<and> resp_headers (snd (do_GET ref_lib demo_base (demo_os None) (new_handler ''/api/sample-graph''))) =
           [(''Content-Type'', ''application/json; charset=utf-8''),
            (''Cache-Control'', ''no-cache''),
            (''Access-Control-Allow-Origin'', ''*''),
            (''Content-Length'', ''82'')]
   \<and> length (wfile (snd (do_GET ref_lib demo_base (demo_os None) (new_handler ''/api/sample-graph'')))) = 82"
proof -
  let ?out = "do_GET ref_lib demo_base (demo_os None) (new_handler ''/api/sample-graph'')"
  have p: "urlparse_path ref_lib ''/api/sample-graph'' = Some ''/api/sample-graph''"
    by (simp add: ref_lib_def ref_urlparse_path_def)
  have f: "fst ?out = None"
    by code_simp
  have n: "length (wfile (snd ?out)) = 82"
    by code_simp
  have s: "str_nat 82 = ''82''"
    by code_simp
  from f have "?out = (None, snd ?out)"
    by (metis prod.collapse)
  from json_response_headers [OF p _ this] n s f p show ?thesis
    by simp
qed

section \<open>The sample graph endpoint\<close>

text \<open>
  Claim C3. A GET request for \<^verbatim>\<open>/api/sample-graph\<close> made while the sample graph file
  does not exist raises nothing and is answered with status 404 and a body that is the
  serialization of a dict with the keys \<^verbatim>\<open>error\<close> and \<^verbatim>\<open>path\<close>.
\<close>

theorem missing_sample_graph_404:
  assumes "urlparse_path lib (path h) = Some ''/api/sample-graph''"
    and "\<not> path_exists os (SAMPLE_GRAPH_PATH base)"
  shows "\<exists>r. do_GET lib base os h = (None, r)
           \<and> resp_status r = Some 404
           \<and> wfile r = wfile h @ json_dumps lib
                 (JObject [(''error'', JStr ''sample graph missing''),
                           (''path'', JStr (str_path (SAMPLE_GRAPH_PATH base)))])"
  using do_GET_missing [OF assms]
  by (simp add: send_json_fields HTTPStatus_NOT_FOUND_def)

theorem missing_sample_graph_404_witness:
  "urlparse_path ref_lib (path (new_handler ''/api/sample-graph?x=1'')) = Some ''/api/sample-graph''
   \<and> \<not> path_exists (demo_os None) (SAMPLE_GRAPH_PATH demo_base)
   \<and> (\<exists>r. do_GET ref_lib demo_base (demo_os None) (new_handler ''/api/sample-graph?x=1'') = (None, r)
          \<and> resp_status r = Some 404
          \<and> wfile r = ''{\<newline>  \"error\": \"sample graph missing\",\<newline>  \"path\": \"/srv/app/data/sample-graph.json\"\<newline>}'')"
proof -
  have p: "urlparse_path ref_lib (path (new_handler ''/api/sample-graph?x=1'')) = Some ''/api/sample-graph''"
    by (simp add: ref_lib_def ref_urlparse_path_def new_handler_def)
  have m: "\<not> path_exists (demo_os None) (SAMPLE_GRAPH_PATH demo_base)"
    by (simp add: path_exists_def stat_def SAMPLE_GRAPH_PATH_abs demo_os_def demo_base_def)
  have d: "wfile (new_handler ''/api/sample-graph?x=1'') @ json_dumps ref_lib
                 (JObject [(''error'', JStr ''sample graph missing''),
                           (''path'', JStr (str_path (SAMPLE_GRAPH_PATH demo_base)))]) =
      ''{\<newline>  \"error\": \"sample graph missing\",\<newline>  \"path\": \"/srv/app/data/sample-graph.json\"\<newline>}''"
    by code_simp
  from missing_sample_graph_404 [OF p m] p m d show ?thesis
    by simp
qed




text \<open>
  Claim C1, as stated, asks for a response with status 500 when the file exists and is
  not valid JSON. The handler sends no status at all then: on the file \<^verbatim>\<open>{not json\<close>
  the exception of \<^verbatim>\<open>json.load\<close> leaves \<^verbatim>\<open>do_GET\<close> and the status was never set.
\<close>

theorem malformed_sample_graph_no_500:
  "stat (demo_os (Some (File ''{not json''))) (SAMPLE_GRAPH_PATH demo_base) = Some (File ''{not json'')
   \<and> json_load ref_lib ''{not json'' = Inl JSONDecodeError
   \<and> do_GET ref_lib demo_base (demo_os (Some (File ''{not json''))) (new_handler ''/api/sample-graph'')
       = (Some JSONDecodeError, new_handler ''/api/sample-graph'')
   \<and> resp_status (snd (do_GET ref_lib demo_base (demo_os (Some (File ''{not json'')))
         (new_handler ''/api/sample-graph''))) \<noteq> Some 500"
proof -
  have p: "urlparse_path ref_lib (path (new_handler ''/api/sample-graph'')) = Some ''/api/sample-graph''"
    by (simp add: ref_lib_def ref_urlparse_path_def new_handler_def)
  have s: "stat (demo_os (Some (File ''{not json''))) (SAMPLE_GRAPH_PATH demo_base) = Some (File ''{not json'')"
    by (simp add: stat_def SAMPLE_GRAPH_PATH_abs demo_os_def demo_base_def)
  have l: "json_load ref_lib ''{not json'' = Inl JSONDecodeError"
    by code_simp
  from do_GET_file [OF p s] l s show ?thesis
    by (simp add: new_handler_fields)
qed

text \<open>
  Claim C1, amended. When the file exists and \<^verbatim>\<open>json.load\<close> raises on it, the exception
  leaves \<^verbatim>\<open>do_GET\<close> (it is not swallowed) and the handler has sent nothing: no status
  (neither 404 nor 500), no header, no byte of a body. The requests that follow are
  served as if this one had not been made.
\<close>

theorem malformed_sample_graph_raises:
  assumes "urlparse_path lib target = Some ''/api/sample-graph''"
    and "stat os (SAMPLE_GRAPH_PATH base) = Some (File content)"
    and "json_load lib content = Inl e"
  shows "do_GET lib base os (new_handler target) = (Some e, new_handler target)
       \<and> resp_status (new_handler target) = None
       \<and> resp_headers (new_handler target) = []
       \<and> wfile (new_handler target) = []
       \<and> fst (serve_forever lib base os (Get target # later)) =
           (Some e, new_handler target) # fst (serve_forever lib base os later)"
proof -
  from assms(1) have "urlparse_path lib (path (new_handler target)) = Some ''/api/sample-graph''"
    by (simp add: new_handler_fields)
  from do_GET_file [OF this assms(2)] assms(3)
  have "do_GET lib base os (new_handler target) = (Some e, new_handler target)"
    by simp
  then show ?thesis
    by (simp add: new_handler_fields split: prod.splits)
qed

theorem malformed_sample_graph_raises_witness:
  "urlparse_path ref_lib ''/api/sample-graph'' = Some ''/api/sample-graph''
   \<and> stat (demo_os (Some (File ''{not json''))) (SAMPLE_GRAPH_PATH demo_base) = Some (File ''{not json'')
   \<and> json_load ref_lib ''{not json'' = Inl JSONDecodeError
   \<and> do_GET ref_lib demo_base (demo_os (Some (File ''{not json''))) (new_handler ''/api/sample-graph'')
       = (Some JSONDecodeError, new_handler ''/api/sample-graph'')
   \<and> fst (serve_forever ref_lib demo_base (demo_os (Some (File ''{not json'')))
        (Get ''/api/sample-graph'' # [Get ''/api/health''])) =
       (Some JSONDecodeError, new_handler ''/api/sample-graph'')
       # fst (serve_forever ref_lib demo_base (demo_os (Some (File ''{not json''))) [Get ''/api/health''])"
proof -
  have p: "urlparse_path ref_lib ''/api/sample-graph'' = Some ''/api/sample-graph''"
    by (simp add: ref_lib_def ref_urlparse_path_def)
  have s: "stat (demo_os (Some (File ''{not json''))) (SAMPLE_GRAPH_PATH demo_base) = Some (File ''{not json'')"
    by (simp add: stat_def SAMPLE_GRAPH_PATH_abs demo_os_def demo_base_def)
  have l: "json_load ref_lib ''{not json'' = Inl JSONDecodeError"
    by code_simp
  from malformed_sample_graph_raises [OF p s l, of "[Get ''/api/health'']"] p s l show ?thesis
    by simp
qed

text \<open>
  Claim C9. The response to a GET request for \<^verbatim>\<open>/api/sample-graph\<close> is a function of
  what the sample graph path names at the time of the request: two states of the machine
  that agree there give the same result; after any requests and any changes of other
  files the result is the one of the initial state; and the request that follows a
  change of the file is answered from the new content, in the same run of the server.
\<close>

theorem sample_graph_reread:
  assumes "urlparse_path lib target = Some ''/api/sample-graph''"
  shows "(stat os1 (SAMPLE_GRAPH_PATH base) = stat os2 (SAMPLE_GRAPH_PATH base) \<longrightarrow>
            do_GET lib base os1 (new_handler target) = do_GET lib base os2 (new_handler target))
       \<and> ((\<forall>n. Edit (base @ [''data'', ''sample-graph.json'']) n \<notin> set es) \<longrightarrow>
            last (fst (serve_forever lib base os (es @ [Get target])))
              = do_GET lib base os (new_handler target))
       \<and> last (fst (serve_forever lib base os
                (es @ [Edit (base @ [''data'', ''sample-graph.json'']) (Some (File c)), Get target])))
           = (case json_load lib c of
                Inl e \<Rightarrow> (Some e, new_handler target)
              | Inr v \<Rightarrow> (None, send_json lib HTTPStatus_OK v (new_handler target)))"
proof (intro conjI impI)
  from assms have p: "urlparse_path lib (path (new_handler target)) = Some ''/api/sample-graph''"
    by (simp add: new_handler_fields)
  {
    assume "stat os1 (SAMPLE_GRAPH_PATH base) = stat os2 (SAMPLE_GRAPH_PATH base)"
    with p show "do_GET lib base os1 (new_handler target) = do_GET lib base os2 (new_handler target)"
      by (rule do_GET_sample_cong)
  }
  {
    assume "\<forall>n. Edit (base @ [''data'', ''sample-graph.json'']) n \<notin> set es"
    then have "files (snd (serve_forever lib base os es)) (base @ [''data'', ''sample-graph.json''])
        = files os (base @ [''data'', ''sample-graph.json''])"
      by (rule serve_forever_keeps_file)
    then have "do_GET lib base (snd (serve_forever lib base os es)) (new_handler target)
        = do_GET lib base os (new_handler target)"
      by (intro do_GET_sample_cong [OF p]) (simp add: SAMPLE_GRAPH_PATH_abs stat_abs)
    then show "last (fst (serve_forever lib base os (es @ [Get target])))
              = do_GET lib base os (new_handler target)"
      by (simp add: serve_forever_snoc_get)
  }
  let ?os = "(snd (serve_forever lib base os es))
      \<lparr>files := (files (snd (serve_forever lib base os es)))
                  (base @ [''data'', ''sample-graph.json''] := Some (File c))\<rparr>"
  have "last (fst (serve_forever lib base os
                (es @ [Edit (base @ [''data'', ''sample-graph.json'']) (Some (File c)), Get target])))
      = do_GET lib base ?os (new_handler target)"
    by (simp add: serve_forever_append [of lib base os es] split: prod.splits)
  moreover have "stat ?os (SAMPLE_GRAPH_PATH base) = Some (File c)"
    by (simp add: SAMPLE_GRAPH_PATH_abs stat_abs)
  ultimately show "last (fst (serve_forever lib base os
                (es @ [Edit (base @ [''data'', ''sample-graph.json'']) (Some (File c)), Get target])))
           = (case json_load lib c of
                Inl e \<Rightarrow> (Some e, new_handler target)
              | Inr v \<Rightarrow> (None, send_json lib HTTPStatus_OK v (new_handler target)))"
    by (simp add: do_GET_file [OF p])
qed

theorem sample_graph_reread_witness:
  "urlparse_path ref_lib ''/api/sample-graph'' = Some ''/api/sample-graph''
   \<and> last (fst (serve_forever ref_lib demo_base (demo_os (Some (File graph_text)))
        ([Get ''/api/health'', Edit [''srv'', ''app'', ''dist'', ''index.html''] None]
         @ [Get ''/api/sample-graph''])))
       = do_GET ref_lib demo_base (demo_os (Some (File graph_text))) (new_handler ''/api/sample-graph'')
   \<and> wfile (snd (do_GET ref_lib demo_base (demo_os (Some (File graph_text)))
        (new_handler ''/api/sample-graph''))) = ''{\<newline>  \"nodes\": [],\<newline>  \"edges\": []\<newline>}''
   \<and> wfile (snd (last (fst (serve_forever ref_lib demo_base (demo_os (Some (File graph_text)))
        ([Get ''/api/sample-graph'']
         @ [Edit (demo_base @ [''data'', ''sample-graph.json'']) (Some (File ''[1, 2]'')),
            Get ''/api/sample-graph'']))))) = ''[\<newline>  1,\<newline>  2\<newline>]''"
proof -
  let ?os = "demo_os (Some (File graph_text))"
  have p: "urlparse_path ref_lib ''/api/sample-graph'' = Some ''/api/sample-graph''"
    by (simp add: ref_lib_def ref_urlparse_path_def)
  have n: "\<forall>n. Edit (demo_base @ [''data'', ''sample-graph.json'']) n
             \<notin> set [Get ''/api/health'', Edit [''srv'', ''app'', ''dist'', ''index.html''] None]"
    by (simp add: demo_base_def)
  have l: "json_load ref_lib ''[1, 2]'' = Inr (JArray [JInt 1, JInt 2])"
    by code_simp
  have d: "json_dumps ref_lib (JArray [JInt 1, JInt 2]) = ''[\<newline>  1,\<newline>  2\<newline>]''"
    by code_simp
  have w: "wfile (snd (do_GET ref_lib demo_base ?os (new_handler ''/api/sample-graph'')))
      = ''{\<newline>  \"nodes\": [],\<newline>  \"edges\": []\<newline>}''"
    by code_simp
  note t1 = sample_graph_reread [OF p, of ?os demo_base ?os
      "[Get ''/api/health'', Edit [''srv'', ''app'', ''dist'', ''index.html''] None]" ?os]
  note t2 = sample_graph_reread [OF p, of ?os demo_base ?os "[Get ''/api/sample-graph'']" ?os "''[1, 2]''"]
  from t1 n have a: "last (fst (serve_forever ref_lib demo_base ?os
        ([Get ''/api/health'', Edit [''srv'', ''app'', ''dist'', ''index.html''] None]
         @ [Get ''/api/sample-graph''])))
       = do_GET ref_lib demo_base ?os (new_handler ''/api/sample-graph'')"
    by blast
  from t2 l have "last (fst (serve_forever ref_lib demo_base ?os
        ([Get ''/api/sample-graph'']
         @ [Edit (demo_base @ [''data'', ''sample-graph.json'']) (Some (File ''[1, 2]'')),
            Get ''/api/sample-graph''])))
      = (None, send_json ref_lib HTTPStatus_OK (JArray [JInt 1, JInt 2]) (new_handler ''/api/sample-graph''))"
    by simp
  then have b: "wfile (snd (last (fst (serve_forever ref_lib demo_base ?os
        ([Get ''/api/sample-graph'']
         @ [Edit (demo_base @ [''data'', ''sample-graph.json'']) (Some (File ''[1, 2]'')),
            Get ''/api/sample-graph'']))))) = ''[\<newline>  1,\<newline>  2\<newline>]''"
    using d by (simp add: send_json_fields new_handler_fields)
  from p a w b show ?thesis
    by simp
qed

text \<open>
  Claim C8. The sample graph path is \<^verbatim>\<open>data/sample-graph.json\<close> under the project
  directory, an absolute path. A change of the working directory does not change the
  result of a request for \<^verbatim>\<open>/api/sample-graph\<close>; whatever \<^verbatim>\<open>--root\<close> is, a run of
  \<^verbatim>\<open>main\<close> that serves such requests handles each of them as \<^verbatim>\<open>do_GET\<close> does in the
  state before startup; and no run of \<^verbatim>\<open>main\<close> changes what any path names.
\<close>

theorem sample_graph_path_fixed:
  "SAMPLE_GRAPH_PATH base = AbsPath (base @ [''data'', ''sample-graph.json''])
   \<and> (urlparse_path lib (path h) = Some ''/api/sample-graph'' \<longrightarrow>
        do_GET lib base (chdir os d) h = do_GET lib base os h)
   \<and> (parse_args lib environ argv = Inr a
        \<and> path_exists os (joinpath (ROOT_DIR base) (parse_path lib (root a)))
        \<and> path_is_dir os (joinpath (ROOT_DIR base) (parse_path lib (root a)))
        \<and> bind_failure (chdir os (joinpath (ROOT_DIR base) (parse_path lib (root a))))
             (host a) (port a) = None
        \<and> (\<forall>t \<in> set ts. urlparse_path lib t = Some ''/api/sample-graph'') \<longrightarrow>
        trace (main lib base environ os (map Get ts) ending argv) =
          [Bind (host a) (port a),
           Stdout (''Backend serving on http://'' @ host a @ '':'' @ str_int (port a)),
           Stdout (''Static root: '' @ str_path (joinpath (ROOT_DIR base) (parse_path lib (root a)))),
           Stdout ''API endpoints:'',
           Stdout ''  - GET /api/health'',
           Stdout ''  - GET /api/sample-graph'']
          @ map (\<lambda>t. case do_GET lib base os (new_handler t) of (e, h) \<Rightarrow> Handled e h) ts
          @ [Stdout ''Shutting down'', ServerClose])
   \<and> files (final_os (main lib base environ os (map Get ts) ending argv)) = files os"
proof (intro conjI impI)
  show "SAMPLE_GRAPH_PATH base = AbsPath (base @ [''data'', ''sample-graph.json''])"
    by (rule SAMPLE_GRAPH_PATH_abs)
next
  assume "urlparse_path lib (path h) = Some ''/api/sample-graph''"
  then show "do_GET lib base (chdir os d) h = do_GET lib base os h"
    by (rule do_GET_sample_chdir)
next
  let ?rd = "\<lambda>a. joinpath (ROOT_DIR base) (parse_path lib (root a))"
  assume h: "parse_args lib environ argv = Inr a
        \<and> path_exists os (?rd a) \<and> path_is_dir os (?rd a)
        \<and> bind_failure (chdir os (?rd a)) (host a) (port a) = None
        \<and> (\<forall>t \<in> set ts. urlparse_path lib t = Some ''/api/sample-graph'')"
  then have same: "do_GET lib base (chdir os (?rd a)) (new_handler t) = do_GET lib base os (new_handler t)"
    if "t \<in> set ts" for t
    using that by (intro do_GET_sample_chdir) (simp add: new_handler_fields)
  have "map (\<lambda>(e, h). Handled e h) (fst (serve_forever lib base (chdir os (?rd a)) (map Get ts)))
      = map (\<lambda>t. case do_GET lib base os (new_handler t) of (e, h) \<Rightarrow> Handled e h) ts"
    by (simp add: serve_forever_gets same)
  with h show "trace (main lib base environ os (map Get ts) ending argv) =
          [Bind (host a) (port a),
           Stdout (''Backend serving on http://'' @ host a @ '':'' @ str_int (port a)),
           Stdout (''Static root: '' @ str_path (?rd a)),
           Stdout ''API endpoints:'',
           Stdout ''  - GET /api/health'',
           Stdout ''  - GET /api/sample-graph'']
          @ map (\<lambda>t. case do_GET lib base os (new_handler t) of (e, h) \<Rightarrow> Handled e h) ts
          @ [Stdout ''Shutting down'', ServerClose]"
    by (simp add: main_served)
next
  show "files (final_os (main lib base environ os (map Get ts) ending argv)) = files os"
    by (auto simp: main_def Let_def serve_forever_gets chdir_files
        split: sum.splits option.splits prod.splits)
qed

theorem sample_graph_path_fixed_witness:
  "urlparse_path ref_lib (path (new_handler ''/api/sample-graph'')) = Some ''/api/sample-graph''
   \<and> do_GET ref_lib demo_base
         (chdir (demo_os (Some (File graph_text))) (AbsPath [''srv'', ''app'', ''public'']))
         (new_handler ''/api/sample-graph'')
       = do_GET ref_lib demo_base (demo_os (Some (File graph_text))) (new_handler ''/api/sample-graph'')
   \<and> cwd (final_os (main ref_lib demo_base Map.empty (demo_os (Some (File graph_text)))
         (map Get [''/api/sample-graph'']) Interrupt [''--root'', ''public''])) = [''srv'', ''app'', ''public'']
   \<and> cwd (final_os (main ref_lib demo_base Map.empty (demo_os (Some (File graph_text)))
         (map Get [''/api/sample-graph'']) Interrupt [])) = [''srv'', ''app'', ''dist'']
   \<and> drop 6 (trace (main ref_lib demo_base Map.empty (demo_os (Some (File graph_text)))
         (map Get [''/api/sample-graph'']) Interrupt [''--root'', ''public'']))
       = drop 6 (trace (main ref_lib demo_base Map.empty (demo_os (Some (File graph_text)))
         (map Get [''/api/sample-graph'']) Interrupt []))"
proof -
  let ?os = "demo_os (Some (File graph_text))"
  let ?a1 = "\<lparr>host = ''127.0.0.1'', port = 3000, root = ''public''\<rparr>"
  let ?a2 = "\<lparr>host = ''127.0.0.1'', port = 3000, root = ''dist''\<rparr>"
  have p: "urlparse_path ref_lib (path (new_handler ''/api/sample-graph'')) = Some ''/api/sample-graph''"
    by (simp add: ref_lib_def ref_urlparse_path_def new_handler_def)
  have ts: "\<forall>t \<in> set [''/api/sample-graph'']. urlparse_path ref_lib t = Some ''/api/sample-graph''"
    by (simp add: ref_lib_def ref_urlparse_path_def)
  have a1: "parse_args ref_lib Map.empty [''--root'', ''public''] = Inr ?a1"
    by code_simp
  have a2: "parse_args ref_lib Map.empty [] = Inr ?a2"
    by code_simp
  have r1: "joinpath (ROOT_DIR demo_base) (parse_path ref_lib (root ?a1)) = AbsPath [''srv'', ''app'', ''public'']"
    by code_simp
  have r2: "joinpath (ROOT_DIR demo_base) (parse_path ref_lib (root ?a2)) = AbsPath [''srv'', ''app'', ''dist'']"
    by code_simp
  have e1: "path_exists ?os (AbsPath [''srv'', ''app'', ''public''])"
    "path_is_dir ?os (AbsPath [''srv'', ''app'', ''public''])"
    "path_exists ?os (AbsPath [''srv'', ''app'', ''dist''])"
    "path_is_dir ?os (AbsPath [''srv'', ''app'', ''dist''])"
    by (simp_all add: path_exists_def path_is_dir_def stat_abs demo_os_def)
  have b: "bind_failure (chdir ?os d) ''127.0.0.1'' 3000 = None" for d
    by (simp add: chdir_files demo_os_def)
  note t1 = sample_graph_path_fixed [of demo_base ref_lib "new_handler ''/api/sample-graph''" ?os
      "AbsPath [''srv'', ''app'', ''public'']" Map.empty "[''--root'', ''public'']" ?a1
      "[''/api/sample-graph'']" Interrupt]
  note t2 = sample_graph_path_fixed [of demo_base ref_lib "new_handler ''/api/sample-graph''" ?os
      "AbsPath [''srv'', ''app'', ''dist'']" Map.empty "[]" ?a2
      "[''/api/sample-graph'']" Interrupt]
  have c1: "cwd (final_os (main ref_lib demo_base Map.empty ?os
         (map Get [''/api/sample-graph'']) Interrupt [''--root'', ''public''])) = [''srv'', ''app'', ''public'']"
    by code_simp
  have c2: "cwd (final_os (main ref_lib demo_base Map.empty ?os
         (map Get [''/api/sample-graph'']) Interrupt [])) = [''srv'', ''app'', ''dist'']"
    by code_simp
  from t1 a1 r1 e1 b ts have d1: "drop 6 (trace (main ref_lib demo_base Map.empty ?os
         (map Get [''/api/sample-graph'']) Interrupt [''--root'', ''public'']))
      = map (\<lambda>t. case do_GET ref_lib demo_base ?os (new_handler t) of (e, h) \<Rightarrow> Handled e h)
          [''/api/sample-graph''] @ [Stdout ''Shutting down'', ServerClose]"
    by simp
  from t2 a2 r2 e1 b ts have d2: "drop 6 (trace (main ref_lib demo_base Map.empty ?os
         (map Get [''/api/sample-graph'']) Interrupt []))
      = map (\<lambda>t. case do_GET ref_lib demo_base ?os (new_handler t) of (e, h) \<Rightarrow> Handled e h)
          [''/api/sample-graph''] @ [Stdout ''Shutting down'', ServerClose]"
    by simp
  from t1 p have "do_GET ref_lib demo_base (chdir ?os (AbsPath [''srv'', ''app'', ''public'']))
         (new_handler ''/api/sample-graph'')
       = do_GET ref_lib demo_base ?os (new_handler ''/api/sample-graph'')"
    by blast
  with p c1 c2 d1 d2 show ?thesis
    by simp
qed

section \<open>Dispatch\<close>

text \<open>
  Claim C7. \<^verbatim>\<open>do_GET\<close> looks at the request target only through the path that
  \<^verbatim>\<open>urlparse\<close> returns for it (the library strips the query string), and compares it
  with the two literals by equality. For every target that \<^verbatim>\<open>urlparse\<close> accepts:
  \<^verbatim>\<open>/api/health\<close> gives the health document, \<^verbatim>\<open>/api/sample-graph\<close> gives a JSON
  response or an exception of the sample graph branch, two targets with the same parsed
  API path get the same response, and every other parsed path, \<^verbatim>\<open>/api/health/\<close> with
  its trailing slash included, is handed to the static file serving.
\<close>

theorem dispatch_on_parsed_path:
  assumes "urlparse_path lib (path h) = Some p"
  shows "(p = ''/api/health'' \<longrightarrow>
            do_GET lib base os h =
              (None, send_json lib HTTPStatus_OK
                 (JObject [(''status'', JStr ''ok''),
                           (''service'', JStr ''sn-itil-bsm-discovery-backend''),
                           (''message'', JStr ''alive'')]) h))
       \<and> (p = ''/api/sample-graph'' \<longrightarrow>
            (\<exists>e. do_GET lib base os h = (Some e, h))
            \<or> (\<exists>st v. do_GET lib base os h = (None, send_json lib st v h)))
       \<and> ((p = ''/api/health'' \<or> p = ''/api/sample-graph'') \<and> urlparse_path lib t = Some p \<longrightarrow>
            do_GET lib base os (h\<lparr>path := t\<rparr>) =
              (fst (do_GET lib base os h), (snd (do_GET lib base os h))\<lparr>path := t\<rparr>))
       \<and> (p \<noteq> ''/api/health'' \<and> p \<noteq> ''/api/sample-graph'' \<longrightarrow>
            do_GET lib base os h = simple_do_GET lib os h)
       \<and> (p = ''/api/health/'' \<longrightarrow> do_GET lib base os h = simple_do_GET lib os h)"
proof (intro conjI impI)
  assume "p = ''/api/health''"
  with assms show "do_GET lib base os h =
              (None, send_json lib HTTPStatus_OK
                 (JObject [(''status'', JStr ''ok''),
                           (''service'', JStr ''sn-itil-bsm-discovery-backend''),
                           (''message'', JStr ''alive'')]) h)"
    by (simp add: do_GET_health)
next
  assume "p = ''/api/sample-graph''"
  with assms show "(\<exists>e. do_GET lib base os h = (Some e, h))
            \<or> (\<exists>st v. do_GET lib base os h = (None, send_json lib st v h))"
    by (intro do_GET_api_cases [of lib h p]) simp_all
next
  assume "(p = ''/api/health'' \<or> p = ''/api/sample-graph'') \<and> urlparse_path lib t = Some p"
  with assms show "do_GET lib base os (h\<lparr>path := t\<rparr>) =
              (fst (do_GET lib base os h), (snd (do_GET lib base os h))\<lparr>path := t\<rparr>)"
    by (intro do_GET_api_target [of lib h p]) simp_all
next
  assume "p \<noteq> ''/api/health'' \<and> p \<noteq> ''/api/sample-graph''"
  with assms show "do_GET lib base os h = simple_do_GET lib os h"
    by (simp add: do_GET_static)
next
  assume "p = ''/api/health/''"
  with assms show "do_GET lib base os h = simple_do_GET lib os h"
    by (simp add: do_GET_static)
qed

theorem dispatch_on_parsed_path_witness:
  "urlparse_path ref_lib (path (new_handler ''/api/health/'')) = Some ''/api/health/''
   \<and> do_GET ref_lib demo_base (demo_os None) (new_handler ''/api/health/'')
       = simple_do_GET ref_lib (demo_os None) (new_handler ''/api/health/'')
   \<and> resp_status (snd (do_GET ref_lib demo_base (demo_os None) (new_handler ''/api/health/''))) = Some 404
   \<and> urlparse_path ref_lib ''/api/health?probe=1'' = Some ''/api/health''
   \<and> resp_status (snd (do_GET ref_lib demo_base (demo_os None) (new_handler ''/api/health?probe=1''))) = Some 200"
proof -
  have p: "urlparse_path ref_lib (path (new_handler ''/api/health/'')) = Some ''/api/health/''"
    by (simp add: ref_lib_def ref_urlparse_path_def new_handler_def)
  have q: "urlparse_path ref_lib ''/api/health?probe=1'' = Some ''/api/health''"
    by (simp add: ref_lib_def ref_urlparse_path_def)
  have a: "resp_status (snd (simple_do_GET ref_lib (demo_os None) (new_handler ''/api/health/''))) = Some 404"
    by code_simp
  have b: "resp_status (snd (do_GET ref_lib demo_base (demo_os None) (new_handler ''/api/health?probe=1''))) = Some 200"
    by code_simp
  from dispatch_on_parsed_path [OF p, of demo_base "demo_os None"] p q a b show ?thesis
    by simp
qed

section \<open>Startup\<close>



text \<open>
  Claim C6, as stated, has the exit status 1 exactly when the static root is invalid.
  With the root \<^verbatim>\<open>/srv/app/dist\<close> in place and \<^verbatim>\<open>--port 80\<close>, the bind fails, the
  \<^verbatim>\<open>OSError\<close> leaves \<^verbatim>\<open>main\<close> and the exit status is 1.
\<close>

theorem bind_failure_exit_1:
  "parse_args ref_lib Map.empty [''--port'', ''80'']
     = Inr \<lparr>host = ''127.0.0.1'', port = 80, root = ''dist''\<rparr>
   \<and> path_exists (demo_os None) (joinpath (ROOT_DIR demo_base) (parse_path ref_lib ''dist''))
   \<and> path_is_dir (demo_os None) (joinpath (ROOT_DIR demo_base) (parse_path ref_lib ''dist''))
   \<and> result (main ref_lib demo_base Map.empty (demo_os None) [] Interrupt [''--port'', ''80''])
       = Inl OSError
   \<and> exit_status (result (main ref_lib demo_base Map.empty (demo_os None) [] Interrupt
        [''--port'', ''80''])) = 1"
proof -
  have a: "parse_args ref_lib Map.empty [''--port'', ''80'']
     = Inr \<lparr>host = ''127.0.0.1'', port = 80, root = ''dist''\<rparr>"
    by code_simp
  have b: "path_exists (demo_os None) (joinpath (ROOT_DIR demo_base) (parse_path ref_lib ''dist''))"
    by code_simp
  have c: "path_is_dir (demo_os None) (joinpath (ROOT_DIR demo_base) (parse_path ref_lib ''dist''))"
    by code_simp
  have d: "bind_failure (chdir (demo_os None) (joinpath (ROOT_DIR demo_base) (parse_path ref_lib ''dist'')))
             ''127.0.0.1'' 80 = Some OSError"
    by (simp add: chdir_files demo_os_def)
  from a b c d show ?thesis
    by (simp add: main_result_cases)
qed

text \<open>
  Claim C6, amended. \<^verbatim>\<open>main\<close> returns 1 exactly when the arguments parse and the
  resolved static root does not exist or is not a directory; then it has printed one
  line to standard error and done nothing else (no socket bound, the state of the
  machine unchanged). It returns 0 exactly when the arguments parse, the root is a
  directory, the bind succeeds and \<^verbatim>\<open>serve_forever\<close> ends by \<^verbatim>\<open>KeyboardInterrupt\<close>. The
  value \<^verbatim>\<open>main\<close> returns is the exit status.
\<close>

theorem main_return_codes:
  "(result (main lib base environ os events ending argv) = Inr 1 \<longleftrightarrow>
      (\<exists>a. parse_args lib environ argv = Inr a
         \<and> \<not> (path_exists os (joinpath (ROOT_DIR base) (parse_path lib (root a)))
              \<and> path_is_dir os (joinpath (ROOT_DIR base) (parse_path lib (root a))))))
   \<and> (result (main lib base environ os events ending argv) = Inr 1 \<longrightarrow>
        (\<exists>msg. trace (main lib base environ os events ending argv) = [Stderr msg])
        \<and> final_os (main lib base environ os events ending argv) = os)
   \<and> (result (main lib base environ os events ending argv) = Inr 0 \<longleftrightarrow>
        (\<exists>a. parse_args lib environ argv = Inr a
           \<and> path_exists os (joinpath (ROOT_DIR base) (parse_path lib (root a)))
           \<and> path_is_dir os (joinpath (ROOT_DIR base) (parse_path lib (root a)))
           \<and> bind_failure (chdir os (joinpath (ROOT_DIR base) (parse_path lib (root a))))
                (host a) (port a) = None
           \<and> ending = Interrupt))
   \<and> (\<forall>n. result (main lib base environ os events ending argv) = Inr n \<longrightarrow>
        exit_status (result (main lib base environ os events ending argv)) = n)"
proof (intro conjI)
  show "result (main lib base environ os events ending argv) = Inr 1 \<longleftrightarrow>
      (\<exists>a. parse_args lib environ argv = Inr a
         \<and> \<not> (path_exists os (joinpath (ROOT_DIR base) (parse_path lib (root a)))
              \<and> path_is_dir os (joinpath (ROOT_DIR base) (parse_path lib (root a)))))"
    by (auto simp: main_result_cases split: sum.splits option.splits ending.splits)
  then show "result (main lib base environ os events ending argv) = Inr 1 \<longrightarrow>
        (\<exists>msg. trace (main lib base environ os events ending argv) = [Stderr msg])
        \<and> final_os (main lib base environ os events ending argv) = os"
    using main_bad_root [of lib environ argv _ os base events ending] by auto
  show "result (main lib base environ os events ending argv) = Inr 0 \<longleftrightarrow>
        (\<exists>a. parse_args lib environ argv = Inr a
           \<and> path_exists os (joinpath (ROOT_DIR base) (parse_path lib (root a)))
           \<and> path_is_dir os (joinpath (ROOT_DIR base) (parse_path lib (root a)))
           \<and> bind_failure (chdir os (joinpath (ROOT_DIR base) (parse_path lib (root a))))
                (host a) (port a) = None
           \<and> ending = Interrupt)"
    by (auto simp: main_result_cases split: sum.splits option.splits ending.splits)
  show "\<forall>n. result (main lib base environ os events ending argv) = Inr n \<longrightarrow>
        exit_status (result (main lib base environ os events ending argv)) = n"
    by simp
qed

theorem main_return_codes_witness:
  "parse_args ref_lib Map.empty [''--root'', ''nowhere'']
     = Inr \<lparr>host = ''127.0.0.1'', port = 3000, root = ''nowhere''\<rparr>
   \<and> \<not> path_exists (demo_os None) (joinpath (ROOT_DIR demo_base) (parse_path ref_lib ''nowhere''))
   \<and> result (main ref_lib demo_base Map.empty (demo_os None) [Get ''/api/health''] Interrupt
        [''--root'', ''nowhere'']) = Inr 1
   \<and> trace (main ref_lib demo_base Map.empty (demo_os None) [Get ''/api/health''] Interrupt
        [''--root'', ''nowhere'']) = [Stderr ''Error: static root not found: /srv/app/nowhere'']
   \<and> exit_status (result (main ref_lib demo_base Map.empty (demo_os None) [Get ''/api/health'']
        Interrupt [''--root'', ''nowhere''])) = 1"
proof -
  let ?m = "main ref_lib demo_base Map.empty (demo_os None) [Get ''/api/health''] Interrupt
        [''--root'', ''nowhere'']"
  have a: "parse_args ref_lib Map.empty [''--root'', ''nowhere'']
     = Inr \<lparr>host = ''127.0.0.1'', port = 3000, root = ''nowhere''\<rparr>"
    by code_simp
  have b: "\<not> path_exists (demo_os None) (joinpath (ROOT_DIR demo_base) (parse_path ref_lib ''nowhere''))"
    by code_simp
  have t: "trace ?m = [Stderr ''Error: static root not found: /srv/app/nowhere'']"
    by code_simp
  note m = main_return_codes [of ref_lib demo_base Map.empty "demo_os None" "[Get ''/api/health'']"
      Interrupt "[''--root'', ''nowhere'']"]
  from m a b have r: "result ?m = Inr 1"
    by simp
  with m have "exit_status (result ?m) = 1"
    by simp
  with a b r t show ?thesis
    by simp
qed

end
